theory Spec2Isabelle
  imports Complex_Main "HOL-Library.AList"
begin

chapter \<open>JSON to ZIP converter: a shallow embedding and its properties\<close>

text \<open>
  The development follows the JavaScript sources of the converter:
  \<^item> \<^verbatim>\<open>src/lib/zipGenerator.js\<close>: \<^verbatim>\<open>sanitizeFileName\<close>, \<^verbatim>\<open>processJsonNode\<close>,
    \<^verbatim>\<open>generateZipFromJson\<close>, \<^verbatim>\<open>analyzeJsonStructure\<close>, \<^verbatim>\<open>createFileStructure\<close>;
  \<^item> \<^verbatim>\<open>src/unnamed/part_003\<close> (the JSON parser library): \<^verbatim>\<open>TreeNode\<close>,
    \<^verbatim>\<open>generateTreeStructure\<close>, \<^verbatim>\<open>getFileExtension\<close>, \<^verbatim>\<open>getTreeStatistics\<close>;
  \<^item> \<^verbatim>\<open>src/pages/api/generate-zip.js\<close>: the HTTP handler and its \<^verbatim>\<open>processJsonStructure\<close>;
  \<^item> \<^verbatim>\<open>src/next.config.js\<close>, which holds a second copy of the generator:
    \<^verbatim>\<open>getSmartFileExtension\<close>.

  Conventions. A JavaScript string is a \<^typ>\<open>string\<close>, one \<^typ>\<open>char\<close> per code unit, so the
  strings covered are those whose code units are below 256; \<open>length\<close> is the
  JavaScript \<^verbatim>\<open>.length\<close>. Counters and array indices are \<^typ>\<open>nat\<close>. A loop
  (\<^verbatim>\<open>for\<close>, \<^verbatim>\<open>forEach\<close>) is a recursive function over the list it walks. Built-ins of
  the JavaScript runtime and the JSZip library are not part of the repository; they are
  modelled in their own sections, after ECMA-262, ECMA-404 and the JSZip 3 sources.
\<close>

section \<open>Strings of the runtime\<close>

text \<open>\<^verbatim>\<open>String.prototype.startsWith\<close>, \<^verbatim>\<open>endsWith\<close> and \<^verbatim>\<open>includes\<close>.\<close>

definition startsWith :: "string \<Rightarrow> string \<Rightarrow> bool" where
  "startsWith s p \<longleftrightarrow> take (length p) s = p"

definition endsWith :: "string \<Rightarrow> string \<Rightarrow> bool" where
  "endsWith s p \<longleftrightarrow> length p \<le> length s \<and> drop (length s - length p) s = p"

fun includesStr :: "string \<Rightarrow> string \<Rightarrow> bool" where
  "includesStr [] p \<longleftrightarrow> p = []"
| "includesStr (c # cs) p \<longleftrightarrow> startsWith (c # cs) p \<or> includesStr cs p"

text \<open>
  The class \<^verbatim>\<open>\s\<close> of regular expressions, which is also what \<^verbatim>\<open>trim\<close> removes: TAB, LF,
  VT, FF, CR, SPACE and NO-BREAK SPACE are its members below 256.
\<close>

definition isSpaceChar :: "char \<Rightarrow> bool" where
  "isSpaceChar c \<longleftrightarrow>
     c = CHR 0x09 \<or> c = CHR 0x0A \<or> c = CHR 0x0B \<or> c = CHR 0x0C \<or> c = CHR 0x0D \<or>
     c = CHR 0x20 \<or> c = CHR 0xA0"

definition trim :: "string \<Rightarrow> string" where
  "trim s = rev (dropWhile isSpaceChar (rev (dropWhile isSpaceChar s)))"

text \<open>
  \<^verbatim>\<open>Number.prototype.toString\<close> on an array index or a counter: the decimal digits.
  (JavaScript switches to exponent notation from \<open>10\<^sup>2\<^sup>1\<close> on, which no index or counter
  reaches.)
\<close>

definition digitChar :: "nat \<Rightarrow> char" where
  "digitChar d = ''0123456789'' ! d"

fun natToString :: "nat \<Rightarrow> string" where
  "natToString n =
     (if n < 10 then [digitChar n]
      else natToString (n div 10) @ [digitChar (n mod 10)])"

declare natToString.simps [simp del]

text \<open>\<^verbatim>\<open>String.prototype.padStart\<close> with a filler of one character.\<close>

definition padStart :: "nat \<Rightarrow> char \<Rightarrow> string \<Rightarrow> string" where
  "padStart targetLength c s = replicate (targetLength - length s) c @ s"

text \<open>
  \<^verbatim>\<open>s.replace(pattern, replacement)\<close> with a string pattern: the first occurrence of the
  pattern is replaced, and in the replacement \<^verbatim>\<open>$$\<close> stands for a dollar sign, \<^verbatim>\<open>$&\<close> for
  the matched text, \<^verbatim>\<open>$`\<close> for the text before it and \<^verbatim>\<open>$'\<close> for the text after it.
\<close>

fun getSubstitution :: "string \<Rightarrow> string \<Rightarrow> string \<Rightarrow> string \<Rightarrow> string" where
  "getSubstitution matched preceding following (c # d # cs) =
     (if c = CHR ''$'' \<and> d = CHR ''$'' then CHR ''$'' # getSubstitution matched preceding following cs
      else if c = CHR ''$'' \<and> d = CHR ''&'' then matched @ getSubstitution matched preceding following cs
      else if c = CHR ''$'' \<and> d = CHR 0x60 then preceding @ getSubstitution matched preceding following cs
      else if c = CHR ''$'' \<and> d = CHR 0x27 then following @ getSubstitution matched preceding following cs
      else c # getSubstitution matched preceding following (d # cs))"
| "getSubstitution matched preceding following cs = cs"

fun replaceFrom :: "string \<Rightarrow> string \<Rightarrow> string \<Rightarrow> string \<Rightarrow> string" where
  "replaceFrom preceding s pattern replacement =
     (if startsWith s pattern
      then preceding @ getSubstitution pattern preceding (drop (length pattern) s) replacement
             @ drop (length pattern) s
      else case s of
             [] \<Rightarrow> preceding
           | c # cs \<Rightarrow> replaceFrom (preceding @ [c]) cs pattern replacement)"

definition replaceFirst :: "string \<Rightarrow> string \<Rightarrow> string \<Rightarrow> string" where
  "replaceFirst s pattern replacement = replaceFrom [] s pattern replacement"

section \<open>JSON values\<close>

text \<open>
  What \<^verbatim>\<open>JSON.parse\<close> returns. An object is the list of its own properties in the order
  \<^verbatim>\<open>Object.keys\<close> reports them; a number is a real (JSON has neither NaN nor infinities).
\<close>

datatype json =
    JNull
  | JBool bool
  | JNumber real
  | JString string
  | JArray "json list"
  | JObject "(string \<times> json) list"

text \<open>\<^verbatim>\<open>typeof v === 'object' && v !== null\<close>: the value is an array or an object.\<close>

fun isObjectLike :: "json \<Rightarrow> bool" where
  "isObjectLike (JArray xs) \<longleftrightarrow> True"
| "isObjectLike (JObject kvs) \<longleftrightarrow> True"
| "isObjectLike v \<longleftrightarrow> False"


text \<open>\<^verbatim>\<open>!v\<close>: the falsy values among the JSON values.\<close>

fun falsy :: "json \<Rightarrow> bool" where
  "falsy JNull \<longleftrightarrow> True"
| "falsy (JBool b) \<longleftrightarrow> \<not> b"
| "falsy (JNumber x) \<longleftrightarrow> x = 0"
| "falsy (JString s) \<longleftrightarrow> s = []"
| "falsy v \<longleftrightarrow> False"

text \<open>
  What the environment supplies and the repository does not compute: the decimal form of
  a number (\<^verbatim>\<open>Number.prototype.toString\<close>) and the clock, \<open>now k\<close> being what the
  \<open>k\<close>-th evaluation of \<^verbatim>\<open>new Date().toISOString()\<close> in a run returns.
\<close>

record runtime =
  numberToString :: "real \<Rightarrow> string"
  now :: "nat \<Rightarrow> string"

subsection \<open>\<^verbatim>\<open>String(v)\<close>\<close>

text \<open>
  Conversion to a string: an array joins the conversions of its elements with commas,
  \<^verbatim>\<open>null\<close> elements giving the empty string; an object gives \<^verbatim>\<open>[object Object]\<close>.
\<close>

fun joinWith :: "string \<Rightarrow> string list \<Rightarrow> string" where
  "joinWith sep [] = []"
| "joinWith sep [x] = x"
| "joinWith sep (x # y # ys) = x @ sep @ joinWith sep (y # ys)"

fun toStringJS :: "runtime \<Rightarrow> json \<Rightarrow> string"
  and elementStrings :: "runtime \<Rightarrow> json list \<Rightarrow> string list" where
  "toStringJS rt JNull = ''null''"
| "toStringJS rt (JBool b) = (if b then ''true'' else ''false'')"
| "toStringJS rt (JNumber x) = numberToString rt x"
| "toStringJS rt (JString s) = s"
| "toStringJS rt (JArray xs) = joinWith '','' (elementStrings rt xs)"
| "toStringJS rt (JObject kvs) = ''[object Object]''"
| "elementStrings rt [] = []"
| "elementStrings rt (x # xs) =
     (if x = JNull then [] else toStringJS rt x) # elementStrings rt xs"

subsection \<open>\<^verbatim>\<open>JSON.stringify\<close>\<close>

text \<open>
  \<^verbatim>\<open>QuoteJSONString\<close>: the quotation mark, the backslash and the control characters are
  escaped, the control characters without a short form as \<^verbatim>\<open>\u00xx\<close> in lower-case hex.
\<close>

definition hexDigit :: "nat \<Rightarrow> char" where
  "hexDigit n = ''0123456789abcdef'' ! (n mod 16)"

definition quoteChar :: "char \<Rightarrow> string" where
  "quoteChar c =
     (if c = CHR 0x22 then [CHR 0x5C, CHR 0x22]
      else if c = CHR 0x5C then [CHR 0x5C, CHR 0x5C]
      else if c = CHR 0x08 then [CHR 0x5C, CHR ''b'']
      else if c = CHR 0x0C then [CHR 0x5C, CHR ''f'']
      else if c = CHR 0x0A then [CHR 0x5C, CHR ''n'']
      else if c = CHR 0x0D then [CHR 0x5C, CHR ''r'']
      else if c = CHR 0x09 then [CHR 0x5C, CHR ''t'']
      else if (of_char c :: nat) < 0x20
        then [CHR 0x5C, CHR ''u'', CHR ''0'', CHR ''0'',
              hexDigit (of_char c div 16), hexDigit (of_char c)]
      else [c])"

definition quoteJSONString :: "string \<Rightarrow> string" where
  "quoteJSONString s = [CHR 0x22] @ concat (map quoteChar s) @ [CHR 0x22]"

text \<open>
  \<^verbatim>\<open>JSON.stringify(v, null, gap)\<close> for a JSON value \<open>v\<close>. \<open>indent\<close> is the current
  indentation; with the empty \<open>gap\<close> the result is the compact form of
  \<^verbatim>\<open>JSON.stringify(v)\<close>.
\<close>

fun serialize :: "runtime \<Rightarrow> string \<Rightarrow> string \<Rightarrow> json \<Rightarrow> string"
  and serializeItems :: "runtime \<Rightarrow> string \<Rightarrow> string \<Rightarrow> json list \<Rightarrow> string list"
  and serializeProps :: "runtime \<Rightarrow> string \<Rightarrow> string \<Rightarrow> (string \<times> json) list \<Rightarrow> string list"
  where
  "serialize rt gap indent JNull = ''null''"
| "serialize rt gap indent (JBool b) = (if b then ''true'' else ''false'')"
| "serialize rt gap indent (JNumber x) = numberToString rt x"
| "serialize rt gap indent (JString s) = quoteJSONString s"
| "serialize rt gap indent (JArray xs) =
     (if xs = [] then ''[]''
      else if gap = [] then ''['' @ joinWith '','' (serializeItems rt gap indent xs) @ '']''
      else ''['' @ [CHR 0x0A] @ indent @ gap
             @ joinWith ('','' @ [CHR 0x0A] @ indent @ gap) (serializeItems rt gap (indent @ gap) xs)
             @ [CHR 0x0A] @ indent @ '']'')"
| "serialize rt gap indent (JObject kvs) =
     (if kvs = [] then ''{}''
      else if gap = [] then ''{'' @ joinWith '','' (serializeProps rt gap indent kvs) @ ''}''
      else ''{'' @ [CHR 0x0A] @ indent @ gap
             @ joinWith ('','' @ [CHR 0x0A] @ indent @ gap) (serializeProps rt gap (indent @ gap) kvs)
             @ [CHR 0x0A] @ indent @ ''}'')"
| "serializeItems rt gap indent [] = []"
| "serializeItems rt gap indent (x # xs) =
     serialize rt gap indent x # serializeItems rt gap indent xs"
| "serializeProps rt gap indent [] = []"
| "serializeProps rt gap indent ((k, v) # kvs) =
     (quoteJSONString k @ '':'' @ (if gap = [] then [] else '' '') @ serialize rt gap indent v)
       # serializeProps rt gap indent kvs"

text \<open>\<^verbatim>\<open>JSON.stringify(v)\<close> and \<^verbatim>\<open>JSON.stringify(v, null, 2)\<close>.\<close>

definition stringify :: "runtime \<Rightarrow> json \<Rightarrow> string" where
  "stringify rt v = serialize rt [] [] v"

definition stringify2 :: "runtime \<Rightarrow> json \<Rightarrow> string" where
  "stringify2 rt v = serialize rt ''  '' [] v"

subsection \<open>\<^verbatim>\<open>JSON.parse\<close>: which texts are accepted\<close>

text \<open>
  The sources call \<^verbatim>\<open>JSON.parse\<close> on a string only to see whether it throws, so the model
  is a recogniser of the JSON grammar (ECMA-404): each scanner returns the rest of the text
  after the item it has read, or \<open>None\<close> where \<^verbatim>\<open>JSON.parse\<close> throws a \<^verbatim>\<open>SyntaxError\<close>.
\<close>

definition isJsonSpace :: "char \<Rightarrow> bool" where
  "isJsonSpace c \<longleftrightarrow> c = CHR 0x20 \<or> c = CHR 0x09 \<or> c = CHR 0x0A \<or> c = CHR 0x0D"

definition skipSpace :: "string \<Rightarrow> string" where
  "skipSpace s = dropWhile isJsonSpace s"

definition isDigit :: "char \<Rightarrow> bool" where
  "isDigit c \<longleftrightarrow> c \<in> set ''0123456789''"

definition isHexDigit :: "char \<Rightarrow> bool" where
  "isHexDigit c \<longleftrightarrow> c \<in> set ''0123456789abcdefABCDEF''"

text \<open>A string, read from behind its opening quotation mark.\<close>

fun scanString :: "string \<Rightarrow> string option" where
  "scanString [] = None"
| "scanString (c # cs) =
     (if c = CHR 0x22 then Some cs
      else if c = CHR 0x5C then
        (case cs of
           [] \<Rightarrow> None
         | e # es \<Rightarrow>
             if e \<in> set [CHR 0x22, CHR 0x5C, CHR ''/'', CHR ''b'', CHR ''f'', CHR ''n'', CHR ''r'', CHR ''t'']
               then scanString es
             else if e = CHR ''u'' then
               (case es of
                  h1 # h2 # h3 # h4 # rest \<Rightarrow>
                    if isHexDigit h1 \<and> isHexDigit h2 \<and> isHexDigit h3 \<and> isHexDigit h4
                    then scanString rest else None
                | _ \<Rightarrow> None)
             else None)
      else if (of_char c :: nat) < 0x20 then None
      else scanString cs)"

text \<open>
  A number: an optional minus sign, an integer part without a leading zero, an optional
  fraction and an optional exponent, each with at least one digit.
\<close>

definition scanDigits :: "string \<Rightarrow> string option" where
  "scanDigits s = (case s of
       [] \<Rightarrow> None
     | d # ds \<Rightarrow> if isDigit d then Some (dropWhile isDigit ds) else None)"

definition scanFraction :: "string \<Rightarrow> string option" where
  "scanFraction s = (case s of
       [] \<Rightarrow> Some s
     | c # cs \<Rightarrow> if c = CHR ''.'' then scanDigits cs else Some s)"

definition scanExponent :: "string \<Rightarrow> string option" where
  "scanExponent s = (case s of
       [] \<Rightarrow> Some s
     | c # cs \<Rightarrow>
         if c = CHR ''e'' \<or> c = CHR ''E'' then
           (case cs of
              [] \<Rightarrow> None
            | g # gs \<Rightarrow> if g = CHR ''+'' \<or> g = CHR ''-'' then scanDigits gs else scanDigits cs)
         else Some s)"

definition scanNumber :: "string \<Rightarrow> string option" where
  "scanNumber s =
     (let unsigned = (case s of [] \<Rightarrow> [] | c # cs \<Rightarrow> if c = CHR ''-'' then cs else s)
      in case unsigned of
           [] \<Rightarrow> None
         | d # ds \<Rightarrow>
             if \<not> isDigit d then None
             else (case scanFraction (if d = CHR ''0'' then ds else dropWhile isDigit ds) of
                     None \<Rightarrow> None
                   | Some rest \<Rightarrow> scanExponent rest))"

text \<open>
  A value, the elements of an array after its bracket, and the members of an object after
  its brace. The first argument bounds the number of nested calls; the recogniser is
  started with a bound that no text exhausts, since every second call consumes a
  character.
\<close>

fun scanValue :: "nat \<Rightarrow> string \<Rightarrow> string option"
  and scanElements :: "nat \<Rightarrow> string \<Rightarrow> string option"
  and scanMembers :: "nat \<Rightarrow> string \<Rightarrow> string option" where
  "scanValue 0 s = None"
| "scanValue (Suc n) s =
     (if startsWith s ''null'' then Some (drop 4 s)
      else if startsWith s ''true'' then Some (drop 4 s)
      else if startsWith s ''false'' then Some (drop 5 s)
      else case s of
             [] \<Rightarrow> None
           | c # cs \<Rightarrow>
               if c = CHR 0x22 then scanString cs
               else if c = CHR ''['' then
                 (case skipSpace cs of
                    [] \<Rightarrow> None
                  | d # ds \<Rightarrow> if d = CHR '']'' then Some ds else scanElements n (d # ds))
               else if c = CHR ''{'' then
                 (case skipSpace cs of
                    [] \<Rightarrow> None
                  | d # ds \<Rightarrow> if d = CHR ''}'' then Some ds else scanMembers n (d # ds))
               else scanNumber s)"
| "scanElements 0 s = None"
| "scanElements (Suc n) s =
     (case scanValue n s of
        None \<Rightarrow> None
      | Some rest \<Rightarrow>
          (case skipSpace rest of
             [] \<Rightarrow> None
           | d # ds \<Rightarrow>
               if d = CHR '','' then scanElements n (skipSpace ds)
               else if d = CHR '']'' then Some ds
               else None))"
| "scanMembers 0 s = None"
| "scanMembers (Suc n) s =
     (case s of
        [] \<Rightarrow> None
      | q # qs \<Rightarrow>
          if q \<noteq> CHR 0x22 then None
          else (case scanString qs of
                  None \<Rightarrow> None
                | Some afterKey \<Rightarrow>
                    (case skipSpace afterKey of
                       [] \<Rightarrow> None
                     | colon # afterColon \<Rightarrow>
                         if colon \<noteq> CHR '':'' then None
                         else (case scanValue n (skipSpace afterColon) of
                                 None \<Rightarrow> None
                               | Some rest \<Rightarrow>
                                   (case skipSpace rest of
                                      [] \<Rightarrow> None
                                    | d # ds \<Rightarrow>
                                        if d = CHR '','' then scanMembers n (skipSpace ds)
                                        else if d = CHR ''}'' then Some ds
                                        else None)))))"

text \<open>\<open>parsesAsJSON s\<close> holds iff \<^verbatim>\<open>JSON.parse(s)\<close> returns instead of throwing.\<close>

definition parsesAsJSON :: "string \<Rightarrow> bool" where
  "parsesAsJSON s =
     (case scanValue (2 * length s + 2) (skipSpace s) of
        None \<Rightarrow> False
      | Some rest \<Rightarrow> skipSpace rest = [])"

section \<open>\<^verbatim>\<open>sanitizeFileName\<close> (zipGenerator.js)\<close>

text \<open>The characters of the class \<^verbatim>\<open>[<>:"/\\|?*]\<close>.\<close>

definition isInvalidChar :: "char \<Rightarrow> bool" where
  "isInvalidChar c \<longleftrightarrow>
     c = CHR ''<'' \<or> c = CHR ''>'' \<or> c = CHR '':'' \<or> c = CHR 0x22 \<or> c = CHR ''/'' \<or>
     c = CHR 0x5C \<or> c = CHR ''|'' \<or> c = CHR ''?'' \<or> c = CHR ''*''"

definition isUnderscore :: "char \<Rightarrow> bool" where
  "isUnderscore c \<longleftrightarrow> c = CHR ''_''"

text \<open>
  \<^verbatim>\<open>s.replace(/X+/g, '_')\<close> for a character class \<open>X\<close>: every maximal run of characters
  of the class becomes one underscore.
\<close>

function replaceRuns :: "(char \<Rightarrow> bool) \<Rightarrow> string \<Rightarrow> string" where
  "replaceRuns p [] = []"
| "replaceRuns p (c # cs) =
     (if p c then CHR ''_'' # replaceRuns p (dropWhile p cs) else c # replaceRuns p cs)"
  by pat_completeness auto
termination
  by (relation "measure (\<lambda>(p, s). length s)") (auto simp: less_Suc_eq_le length_dropWhile_le)

text \<open>
  \<^verbatim>\<open>s.replace(/^_|_$/g, '')\<close>: an underscore at the start is removed, and then an
  underscore at the end of what is left.
\<close>

definition stripEnds :: "string \<Rightarrow> string" where
  "stripEnds s =
     (let s1 = (case s of [] \<Rightarrow> [] | c # cs \<Rightarrow> if c = CHR ''_'' then cs else s)
      in if s1 \<noteq> [] \<and> last s1 = CHR ''_'' then butlast s1 else s1)"

definition sanitizeFileName :: "string \<Rightarrow> string" where
  "sanitizeFileName fileName =
     take 255 (stripEnds (replaceRuns isUnderscore (replaceRuns isSpaceChar
       (map (\<lambda>c. if isInvalidChar c then CHR ''_'' else c) fileName))))"

section \<open>The JSON parser library (\<^verbatim>\<open>part_003\<close>)\<close>

subsection \<open>\<^verbatim>\<open>getFileExtension\<close>\<close>

text \<open>
  The \<^verbatim>\<open>try\<close> block returns \<^verbatim>\<open>.json\<close> when \<^verbatim>\<open>JSON.parse\<close> returns; the \<^verbatim>\<open>catch\<close> block
  holds the other tests.
\<close>

fun getFileExtension :: "json \<Rightarrow> string" where
  "getFileExtension (JString s) =
     (if parsesAsJSON s then ''.json''
      else if startsWith (trim s) ''<'' \<and> endsWith (trim s) ''>'' then ''.html''
      else if includesStr s ''{'' \<and> includesStr s ''}'' \<and> includesStr s '':'' then ''.css''
      else if includesStr s ''function'' \<or> includesStr s ''=>'' \<or> includesStr s ''var ''
              \<or> includesStr s ''const '' then ''.js''
      else ''.txt'')"
| "getFileExtension (JNumber x) = ''.txt''"
| "getFileExtension (JBool b) = ''.txt''"
| "getFileExtension v = ''.json''"

subsection \<open>The class \<^verbatim>\<open>TreeNode\<close>\<close>

text \<open>
  The fields \<^verbatim>\<open>name\<close>, \<^verbatim>\<open>type\<close>, \<^verbatim>\<open>value\<close>, \<^verbatim>\<open>children\<close> and \<^verbatim>\<open>isExpanded\<close>. The field
  \<^verbatim>\<open>type\<close> is a string, as in the class, which does not restrict it to \<^verbatim>\<open>'file'\<close> and
  \<^verbatim>\<open>'folder'\<close>. The field \<^verbatim>\<open>id\<close>, a random string that no function reads, is left out.
\<close>

datatype TreeNode =
  TreeNode (nodeName: string) (nodeType: string) (nodeValue: json)
           (nodeChildren: "TreeNode list") (isExpanded: bool)

text \<open>The methods; \<^verbatim>\<open>reduce\<close> is \<^const>\<open>foldl\<close>.\<close>

fun getFileCount :: "TreeNode \<Rightarrow> nat" where
  "getFileCount (TreeNode name type val children expanded) =
     (if type = ''file'' then 1
      else foldl (\<lambda>count child. count + getFileCount child) 0 children)"

fun getFolderCount :: "TreeNode \<Rightarrow> nat" where
  "getFolderCount (TreeNode name type val children expanded) =
     foldl (\<lambda>total child. total + getFolderCount child)
       (if type = ''folder'' then 1 else 0) children"

subsection \<open>\<^verbatim>\<open>generateTreeStructure\<close>\<close>

text \<open>
  The inner function \<^verbatim>\<open>createTreeNode\<close> with its two \<^verbatim>\<open>forEach\<close> loops. Its third parameter
  \<^verbatim>\<open>parentPath\<close> is only handed down to the recursive calls and never read, so it is not
  modelled. A constructor call without \<^verbatim>\<open>value\<close> leaves the field \<^verbatim>\<open>null\<close>.
\<close>

fun createTreeNode :: "json \<Rightarrow> string \<Rightarrow> TreeNode"
  and createEntryNodes :: "(string \<times> json) list \<Rightarrow> TreeNode list"
  and createItemNodes :: "json list \<Rightarrow> nat \<Rightarrow> TreeNode list" where
  "createTreeNode JNull name = TreeNode name ''file'' (JString ''null'') [] True"
| "createTreeNode (JObject kvs) name =
     TreeNode name ''folder'' JNull (createEntryNodes kvs) True"
| "createTreeNode (JArray xs) name =
     TreeNode name ''folder'' JNull (createItemNodes xs 0) True"
| "createTreeNode v name = TreeNode (name @ getFileExtension v) ''file'' v [] True"
| "createEntryNodes [] = []"
| "createEntryNodes ((key, v) # kvs) = createTreeNode v key # createEntryNodes kvs"
| "createItemNodes [] index = []"
| "createItemNodes (item # items) index =
     createTreeNode item (''item_'' @ natToString index) # createItemNodes items (index + 1)"

definition generateTreeStructure :: "json \<Rightarrow> string \<Rightarrow> TreeNode" where
  "generateTreeStructure jsonData rootName = createTreeNode jsonData rootName"

subsection \<open>\<^verbatim>\<open>getTreeStatistics\<close>\<close>

record treeStatistics =
  totalFiles :: nat
  totalFolders :: nat
  treeMaxDepth :: nat
  totalSize :: nat

text \<open>
  The inner function \<^verbatim>\<open>calculateStats\<close> updates the object \<^verbatim>\<open>stats\<close> of the enclosing call;
  here it takes the object and returns it updated. \<^verbatim>\<open>node.value || ''\<close> is the empty
  string for a falsy value.
\<close>

fun calculateStats :: "runtime \<Rightarrow> TreeNode \<Rightarrow> nat \<Rightarrow> treeStatistics \<Rightarrow> treeStatistics" where
  "calculateStats rt (TreeNode name type val children expanded) depth stats =
     (let stats1 = stats\<lparr>treeMaxDepth := max (treeMaxDepth stats) depth\<rparr>
      in if type = ''file'' then
           stats1\<lparr>totalFiles := totalFiles stats1 + 1,
                  totalSize := totalSize stats1
                    + length (toStringJS rt (if falsy val then JString [] else val))\<rparr>
         else fold (\<lambda>child s. calculateStats rt child (depth + 1) s) children
                (stats1\<lparr>totalFolders := totalFolders stats1 + 1\<rparr>))"

definition getTreeStatistics :: "runtime \<Rightarrow> TreeNode \<Rightarrow> treeStatistics" where
  "getTreeStatistics rt treeNode =
     calculateStats rt treeNode 0
       \<lparr>totalFiles = 0, totalFolders = 0, treeMaxDepth = 0, totalSize = 0\<rparr>"

section \<open>The ZIP generator (zipGenerator.js)\<close>

subsection \<open>\<^verbatim>\<open>analyzeJsonStructure\<close>\<close>

record stats =
  objectCount :: nat
  arrayCount :: nat
  fileCount :: nat
  maxDepth :: nat

text \<open>The body of the two \<^verbatim>\<open>forEach\<close> callbacks: the counts add up, the depth is the maximum.\<close>

definition addSubStats :: "stats \<Rightarrow> stats \<Rightarrow> stats" where
  "addSubStats st subStats =
     \<lparr>objectCount = objectCount st + objectCount subStats,
      arrayCount = arrayCount st + arrayCount subStats,
      fileCount = fileCount st + fileCount subStats,
      maxDepth = max (maxDepth st) (maxDepth subStats)\<rparr>"

fun analyzeJsonStructure :: "json \<Rightarrow> nat \<Rightarrow> stats"
  and analyzeItems :: "json list \<Rightarrow> nat \<Rightarrow> stats \<Rightarrow> stats"
  and analyzeValues :: "(string \<times> json) list \<Rightarrow> nat \<Rightarrow> stats \<Rightarrow> stats" where
  "analyzeJsonStructure (JArray xs) depth =
     analyzeItems xs depth \<lparr>objectCount = 0, arrayCount = 1, fileCount = 0, maxDepth = depth\<rparr>"
| "analyzeJsonStructure (JObject kvs) depth =
     analyzeValues kvs depth \<lparr>objectCount = 1, arrayCount = 0, fileCount = 0, maxDepth = depth\<rparr>"
| "analyzeJsonStructure v depth =
     \<lparr>objectCount = 0, arrayCount = 0, fileCount = 1, maxDepth = depth\<rparr>"
| "analyzeItems [] depth st = st"
| "analyzeItems (item # items) depth st =
     analyzeItems items depth (addSubStats st (analyzeJsonStructure item (depth + 1)))"
| "analyzeValues [] depth st = st"
| "analyzeValues ((key, v) # kvs) depth st =
     analyzeValues kvs depth (addSubStats st (analyzeJsonStructure v (depth + 1)))"

subsection \<open>\<^verbatim>\<open>createFileStructure\<close>\<close>

text \<open>
  The preview node \<^verbatim>\<open>{ name, type, children, depth }\<close>. The file nodes pushed into a
  folder are built without the field \<^verbatim>\<open>children\<close>; they have the empty list here.
\<close>

datatype previewNode =
  PreviewNode (previewName: string) (previewType: string)
              (previewChildren: "previewNode list") (previewDepth: nat)

text \<open>\<^verbatim>\<open>`item_${index.toString().padStart(3, '0')}`\<close>.\<close>

definition itemName :: "nat \<Rightarrow> string" where
  "itemName i = ''item_'' @ padStart 3 (CHR ''0'') (natToString i)"

fun createFileStructure :: "json \<Rightarrow> string \<Rightarrow> nat \<Rightarrow> previewNode"
  and previewItems :: "json list \<Rightarrow> nat \<Rightarrow> nat \<Rightarrow> previewNode list"
  and previewKeys :: "(string \<times> json) list \<Rightarrow> nat \<Rightarrow> previewNode list" where
  "createFileStructure (JArray xs) name depth =
     PreviewNode (sanitizeFileName name) ''folder''
       (if xs = [] then [PreviewNode ''empty_array.json'' ''file'' [] (depth + 1)]
        else previewItems xs 0 depth)
       depth"
| "createFileStructure (JObject kvs) name depth =
     PreviewNode (sanitizeFileName name) ''folder''
       (if kvs = [] then [PreviewNode ''empty_object.json'' ''file'' [] (depth + 1)]
        else previewKeys kvs depth)
       depth"
| "createFileStructure v name depth = PreviewNode (name @ ''.json'') ''file'' [] depth"
| "previewItems [] index depth = []"
| "previewItems (item # items) index depth =
     (if isObjectLike item then createFileStructure item (itemName index) (depth + 1)
      else PreviewNode (itemName index @ ''.json'') ''file'' [] (depth + 1))
       # previewItems items (index + 1) depth"
| "previewKeys [] depth = []"
| "previewKeys ((key, v) # kvs) depth =
     (if isObjectLike v then createFileStructure v (sanitizeFileName key) (depth + 1)
      else PreviewNode (sanitizeFileName key @ ''.json'') ''file'' [] (depth + 1))
       # previewKeys kvs depth"

subsection \<open>The JSZip library\<close>

text \<open>
  A JSZip instance keeps its entries in the object \<^verbatim>\<open>files\<close>, keyed by the full name; the
  name of a directory entry ends with a slash. The object is an association list in the
  order of insertion, and an assignment to an existing key replaces the entry in place.
\<close>

record zipObject =
  dir :: bool
  content :: string

type_synonym zipFiles = "(string \<times> zipObject) list"

definition forceTrailingSlash :: "string \<Rightarrow> string" where
  "forceTrailingSlash name = (if name \<noteq> [] \<and> last name = CHR ''/'' then name else name @ ''/'')"

text \<open>
  \<^verbatim>\<open>parentFolder\<close>: the name up to the last slash, not counting a slash at the very end;
  empty when there is no such slash or it is the first character.
\<close>

definition parentFolder :: "string \<Rightarrow> string" where
  "parentFolder path =
     (let p = (if path \<noteq> [] \<and> last path = CHR ''/'' then butlast path else path);
          afterLastSlash = takeWhile (\<lambda>c. c \<noteq> CHR ''/'') (rev p)
      in if CHR ''/'' \<in> set p then take (length p - length afterLastSlash - 1) p else [])"

text \<open>
  \<^verbatim>\<open>folderAdd\<close> creates the directory entry unless an entry of that name exists, and
  before it the entries of the enclosing directories (\<^verbatim>\<open>createFolders\<close> is on by default).
\<close>

function folderAdd :: "string \<Rightarrow> zipFiles \<Rightarrow> zipFiles" where
  "folderAdd name files =
     (let name' = forceTrailingSlash name
      in if map_of files name' \<noteq> None then files
         else AList.update name' \<lparr>dir = True, content = []\<rparr>
                (if parentFolder name' \<noteq> [] then folderAdd (parentFolder name') files
                 else files))"
  by pat_completeness auto
termination
proof (relation "measure (\<lambda>(name, files). length name)")
  show "wf (measure (\<lambda>(name, files). length name))" by simp
next
  fix name :: string and files :: zipFiles and x
  assume x: "x = forceTrailingSlash name" and ne: "parentFolder x \<noteq> []"
  define p where "p = (if x \<noteq> [] \<and> last x = CHR ''/'' then butlast x else x)"
  have "length p \<le> length name"
    by (auto simp: p_def x forceTrailingSlash_def)
  moreover have "length (parentFolder x) < length p"
    using ne by (auto simp: parentFolder_def p_def Let_def split: if_splits)
  ultimately show "((parentFolder x, files), (name, files)) \<in> measure (\<lambda>(name, files). length name)"
    by simp
qed

declare folderAdd.simps [simp del]

text \<open>\<^verbatim>\<open>fileAdd\<close> for a file: the enclosing directories, then the entry itself.\<close>

definition fileAdd :: "string \<Rightarrow> string \<Rightarrow> zipFiles \<Rightarrow> zipFiles" where
  "fileAdd name data files =
     AList.update name \<lparr>dir = False, content = data\<rparr>
       (if parentFolder name \<noteq> [] then folderAdd (parentFolder name) files else files)"

text \<open>
  The calls a function makes on a JSZip folder object, in their order: \<^verbatim>\<open>file(name, data)\<close>,
  or \<^verbatim>\<open>folder(name)\<close> together with the calls made on the object it returns.
\<close>

datatype zipCall =
    FileCall string string
  | FolderCall string "zipCall list"

text \<open>
  The effect of the calls on a folder object with prefix \<open>base\<close>. \<^verbatim>\<open>file\<close> adds the entry
  \<open>base @ name\<close>. \<^verbatim>\<open>folder\<close> with an empty name returns the object itself; otherwise it
  adds the directory and returns an object whose prefix is the name of that directory.
\<close>

fun runCall :: "string \<Rightarrow> zipCall \<Rightarrow> zipFiles \<Rightarrow> zipFiles"
  and runCalls :: "string \<Rightarrow> zipCall list \<Rightarrow> zipFiles \<Rightarrow> zipFiles" where
  "runCall base (FileCall name data) files = fileAdd (base @ name) data files"
| "runCall base (FolderCall name calls) files =
     (if name = [] then runCalls base calls files
      else runCalls (forceTrailingSlash (base @ name)) calls (folderAdd (base @ name) files))"
| "runCalls base [] files = files"
| "runCalls base (c # cs) files = runCalls base cs (runCall base c files)"

text \<open>The entries of an archive that are files, in the order of \<^verbatim>\<open>files\<close>.\<close>

definition fileEntries :: "zipFiles \<Rightarrow> (string \<times> zipObject) list" where
  "fileEntries files = filter (\<lambda>(name, entry). \<not> dir entry) files"

subsection \<open>\<^verbatim>\<open>processJsonNode\<close>\<close>

text \<open>
  The options a caller may pass, each of them optional, and the configuration that
  \<^verbatim>\<open>generateZipFromJson\<close> obtains by spreading them over its defaults.
\<close>

record options =
  includeMetadataOption :: "bool option"
  fileExtensionOption :: "string option"
  createReadmeOption :: "bool option"
  timestampFilesOption :: "bool option"

record config =
  includeMetadata :: bool
  fileExtension :: string
  createReadme :: bool
  timestampFiles :: bool

definition withDefaults :: "options \<Rightarrow> config" where
  "withDefaults opts =
     \<lparr>includeMetadata = (case includeMetadataOption opts of None \<Rightarrow> True | Some b \<Rightarrow> b),
      fileExtension = (case fileExtensionOption opts of None \<Rightarrow> ''.json'' | Some e \<Rightarrow> e),
      createReadme = (case createReadmeOption opts of None \<Rightarrow> True | Some b \<Rightarrow> b),
      timestampFiles = (case timestampFilesOption opts of None \<Rightarrow> False | Some b \<Rightarrow> b)\<rparr>"

text \<open>\<^verbatim>\<open>typeof v === 'string' ? v : JSON.stringify(v, null, 2)\<close>.\<close>

fun fileContent :: "runtime \<Rightarrow> json \<Rightarrow> string" where
  "fileContent rt (JString s) = s"
| "fileContent rt v = stringify2 rt v"

text \<open>\<^verbatim>\<open>new Date().toISOString().replace(/[:.]/g, '-')\<close>, at the \<open>k\<close>-th reading of the clock.\<close>

definition fileTimestamp :: "runtime \<Rightarrow> nat \<Rightarrow> string" where
  "fileTimestamp rt k = map (\<lambda>c. if c = CHR '':'' \<or> c = CHR ''.'' then CHR ''-'' else c) (now rt k)"

text \<open>\<^verbatim>\<open>Array.isArray(value) || Object.keys(value).length > 0\<close>, for an array or an object.\<close>

fun arrayOrNonEmpty :: "json \<Rightarrow> bool" where
  "arrayOrNonEmpty (JArray xs) \<longleftrightarrow> True"
| "arrayOrNonEmpty (JObject kvs) \<longleftrightarrow> kvs \<noteq> []"
| "arrayOrNonEmpty v \<longleftrightarrow> False"

text \<open>
  \<^verbatim>\<open>processJsonNode(folder, data, path, config)\<close> returns the calls it makes on \<^verbatim>\<open>folder\<close>.
  The parameter \<^verbatim>\<open>path\<close> is only handed down to the recursive calls and never read, so
  it is not modelled. The last argument counts the readings of the clock made so far and
  is returned updated. \<open>processItems\<close> is the \<^verbatim>\<open>for\<close> loop over an array and
  \<open>processKeys\<close> the loop over the keys of an object.
\<close>

fun processJsonNode :: "runtime \<Rightarrow> config \<Rightarrow> json \<Rightarrow> nat \<Rightarrow> zipCall list \<times> nat"
  and processItems :: "runtime \<Rightarrow> config \<Rightarrow> json list \<Rightarrow> nat \<Rightarrow> nat \<Rightarrow> zipCall list \<times> nat"
  and processKeys :: "runtime \<Rightarrow> config \<Rightarrow> (string \<times> json) list \<Rightarrow> nat \<Rightarrow> zipCall list \<times> nat"
  where
  "processJsonNode rt cfg JNull k =
     ([FileCall (sanitizeFileName (''null'' @ fileExtension cfg)) ''null''], k)"
| "processJsonNode rt cfg (JArray xs) k =
     (if xs = [] then ([FileCall ''empty_array.json'' ''[]''], k)
      else processItems rt cfg xs 0 k)"
| "processJsonNode rt cfg (JObject kvs) k =
     (if kvs = [] then ([FileCall ''empty_object.json'' ''{}''], k)
      else processKeys rt cfg kvs k)"
| "processJsonNode rt cfg v k =
     ([FileCall (sanitizeFileName (''value'' @ fileExtension cfg)) (fileContent rt v)], k)"
| "processItems rt cfg [] i k = ([], k)"
| "processItems rt cfg (item # items) i k =
     (if isObjectLike item then
        (case processJsonNode rt cfg item k of
           (inner, k1) \<Rightarrow>
             (case processItems rt cfg items (i + 1) k1 of
                (calls, k2) \<Rightarrow> (FolderCall (itemName i) inner # calls, k2)))
      else
        (case processItems rt cfg items (i + 1) k of
           (calls, k2) \<Rightarrow>
             (FileCall (sanitizeFileName (itemName i @ fileExtension cfg)) (fileContent rt item)
                # calls, k2)))"
| "processKeys rt cfg [] k = ([], k)"
| "processKeys rt cfg ((key, v) # kvs) k =
     (let sanitizedKey = sanitizeFileName key
      in if isObjectLike v then
           (if arrayOrNonEmpty v then
              (case processJsonNode rt cfg v k of
                 (inner, k1) \<Rightarrow>
                   (case processKeys rt cfg kvs k1 of
                      (calls, k2) \<Rightarrow> (FolderCall sanitizedKey inner # calls, k2)))
            else
              (case processKeys rt cfg kvs k of
                 (calls, k2) \<Rightarrow>
                   (FileCall (sanitizeFileName (sanitizedKey @ fileExtension cfg))
                      (stringify2 rt v) # calls, k2)))
         else
           (let fileName = sanitizeFileName (sanitizedKey @ fileExtension cfg);
                content = fileContent rt v
            in if timestampFiles cfg then
                 (case processKeys rt cfg kvs (k + 1) of
                    (calls, k2) \<Rightarrow>
                      (FileCall
                         (replaceFirst fileName (fileExtension cfg)
                            (''_'' @ fileTimestamp rt k @ fileExtension cfg))
                         content # calls, k2))
               else
                 (case processKeys rt cfg kvs k of
                    (calls, k2) \<Rightarrow> (FileCall fileName content # calls, k2))))"

subsection \<open>\<^verbatim>\<open>generateReadmeContent\<close> and \<^verbatim>\<open>generateMetadata\<close>\<close>

definition generateReadmeContent :: "runtime \<Rightarrow> json \<Rightarrow> string \<Rightarrow> nat \<Rightarrow> string" where
  "generateReadmeContent rt jsonData rootName k =
     (let st = analyzeJsonStructure jsonData 0;
          timestamp = now rt k
      in joinWith [CHR 0x0A]
           [''# '' @ rootName,
            '''',
            ''Generated from JSON structure on '' @ timestamp,
            '''',
            ''## Structure Overview'',
            ''- **Total Objects**: '' @ natToString (objectCount st),
            ''- **Total Arrays**: '' @ natToString (arrayCount st),
            ''- **Total Files**: '' @ natToString (fileCount st),
            ''- **Max Depth**: '' @ natToString (maxDepth st),
            '''',
            ''## File Organization'',
            ''This ZIP contains a hierarchical representation of the original JSON structure:'',
            ''- Objects become folders'',
            ''- Arrays become numbered item folders'',
            ''- Primitive values become individual files'',
            ''- Empty objects/arrays are preserved as special files'',
            '''',
            ''## Notes'',
            ''- File names have been sanitized for filesystem compatibility'',
            ''- Complex nested structures maintain their original hierarchy'',
            ''- Metadata is preserved in _metadata.json'',
            '''',
            ''Generated by JSON to ZIP Converter'',
            ''''])"

definition generateMetadata :: "runtime \<Rightarrow> json \<Rightarrow> string \<Rightarrow> nat \<Rightarrow> json" where
  "generateMetadata rt jsonData rootName k =
     (let st = analyzeJsonStructure jsonData 0
      in JObject
           [(''generatedAt'', JString (now rt k)),
            (''rootName'', JString rootName),
            (''originalSize'', JNumber (real (length (stringify rt jsonData)))),
            (''statistics'', JObject
               [(''objectCount'', JNumber (real (objectCount st))),
                (''arrayCount'', JNumber (real (arrayCount st))),
                (''fileCount'', JNumber (real (fileCount st))),
                (''maxDepth'', JNumber (real (maxDepth st)))]),
            (''version'', JString ''1.0.0'')])"

subsection \<open>\<^verbatim>\<open>generateZipFromJson\<close>\<close>

text \<open>
  The result is the object \<^verbatim>\<open>files\<close> of the JSZip instance when \<^verbatim>\<open>generateAsync\<close> is
  called; the compression of these entries into a blob is the library's work.
  \<^verbatim>\<open>zip.folder(rootName)\<close> returns the instance itself for an empty name.
\<close>

definition rootPrefix :: "string \<Rightarrow> string" where
  "rootPrefix rootName = (if rootName = [] then [] else forceTrailingSlash rootName)"

definition generateZipFromJson :: "runtime \<Rightarrow> json \<Rightarrow> string \<Rightarrow> options \<Rightarrow> zipFiles" where
  "generateZipFromJson rt jsonData rootName opts =
     (let cfg = withDefaults opts;
          files0 = (if rootName = [] then [] else folderAdd rootName []);
          rootFolder = rootPrefix rootName
      in case processJsonNode rt cfg jsonData 0 of
           (calls, k1) \<Rightarrow>
             (let files1 = runCalls rootFolder calls files0;
                  files2 = (if createReadme cfg
                            then fileAdd (rootFolder @ ''README.md'')
                                   (generateReadmeContent rt jsonData rootName k1) files1
                            else files1);
                  k2 = (if createReadme cfg then k1 + 1 else k1)
              in if includeMetadata cfg
                 then fileAdd (rootFolder @ ''_metadata.json'')
                        (stringify2 rt (generateMetadata rt jsonData rootName k2)) files2
                 else files2))"

subsection \<open>\<^verbatim>\<open>getSmartFileExtension\<close> (the second copy of the generator, in next.config.js)\<close>

text \<open>
  The sources hold a second copy of the ZIP generator, which names the file of a scalar
  with this function instead of \<^verbatim>\<open>config.fileExtension\<close>. All tests but \<^verbatim>\<open>JSON.parse\<close> are made
  on the trimmed string.
\<close>

fun getSmartFileExtension :: "json \<Rightarrow> string" where
  "getSmartFileExtension (JString s) =
     (let trimmed = trim s
      in if startsWith trimmed ''<'' \<and> endsWith trimmed ''>'' then ''.html''
         else if includesStr trimmed ''{'' \<and> includesStr trimmed ''}'' \<and> includesStr trimmed '':''
           then ''.css''
         else if includesStr trimmed ''function'' \<or> includesStr trimmed ''=>''
                 \<or> includesStr trimmed ''const '' \<or> includesStr trimmed ''let ''
                 \<or> includesStr trimmed ''var '' \<or> includesStr trimmed ''import ''
           then ''.js''
         else if parsesAsJSON s then ''.json''
         else if includesStr trimmed ''#'' \<or> includesStr trimmed ''**'' \<or> includesStr trimmed ''##''
           then ''.md''
         else ''.txt'')"
| "getSmartFileExtension v = ''.json''"

section \<open>The HTTP handler (pages/api/generate-zip.js)\<close>

text \<open>
  Of a request the handler reads the method and the parsed body; \<open>None\<close> is a body that
  is \<^verbatim>\<open>undefined\<close>. A response is either a status with a JSON document
  (\<^verbatim>\<open>res.status(n).json(doc)\<close>) or a status with the archive, given by the file name of
  the \<^verbatim>\<open>Content-Disposition\<close> header and the entries that are compressed into the buffer.
\<close>

record request =
  httpMethod :: string
  body :: "json option"

datatype response =
    JsonResponse nat json
  | ZipResponse nat string zipFiles

text \<open>
  The property \<open>key\<close> of a value, as the destructuring \<^verbatim>\<open>const { jsonData, zipName } = req.body\<close>
  reads it: \<open>None\<close> is \<^verbatim>\<open>undefined\<close>, which is what every value but an object with that key
  gives.
\<close>

fun property :: "json \<Rightarrow> string \<Rightarrow> json option" where
  "property (JObject kvs) key = map_of kvs key"
| "property v key = None"

text \<open>\<^verbatim>\<open>key.replace(/[<>:"/\\|?*]/g, '_')\<close>.\<close>

definition sanitizeKey :: "string \<Rightarrow> string" where
  "sanitizeKey key = map (\<lambda>c. if isInvalidChar c then CHR ''_'' else c) key"

text \<open>\<^verbatim>\<open>currentPath ? `${currentPath}/${name}` : name\<close>.\<close>

definition joinPath :: "string \<Rightarrow> string \<Rightarrow> string" where
  "joinPath currentPath name = (if currentPath \<noteq> [] then currentPath @ ''/'' @ name else name)"

text \<open>
  \<^verbatim>\<open>Array.isArray(value) && value.length === 0\<close> and
  \<^verbatim>\<open>!Array.isArray(value) && Object.keys(value).length === 0\<close>, for an array or an object.
\<close>

fun isEmptyArray :: "json \<Rightarrow> bool" where
  "isEmptyArray (JArray xs) \<longleftrightarrow> xs = []"
| "isEmptyArray v \<longleftrightarrow> False"

fun isEmptyObject :: "json \<Rightarrow> bool" where
  "isEmptyObject (JObject kvs) \<longleftrightarrow> kvs = []"
| "isEmptyObject v \<longleftrightarrow> False"

text \<open>\<^verbatim>\<open>typeof value === 'string' ? '.txt' : '.json'\<close>.\<close>

fun primitiveExtension :: "json \<Rightarrow> string" where
  "primitiveExtension (JString s) = ''.txt''"
| "primitiveExtension v = ''.json''"

text \<open>
  The inner function \<^verbatim>\<open>processJsonStructure\<close> returns the calls it makes on the instance
  \<^verbatim>\<open>zip\<close> of the handler, all of them with full names: \<^verbatim>\<open>zip.file(name, data)\<close>, and
  \<^verbatim>\<open>zip.folder(name)\<close> whose result is not used. \<open>structureItems\<close> and
  \<open>structureEntries\<close> are its two \<^verbatim>\<open>forEach\<close> loops.
\<close>

function (sequential) processJsonStructure :: "runtime \<Rightarrow> json \<Rightarrow> string \<Rightarrow> zipCall list"
  and structureItems :: "runtime \<Rightarrow> json list \<Rightarrow> nat \<Rightarrow> string \<Rightarrow> zipCall list"
  and structureEntries :: "runtime \<Rightarrow> (string \<times> json) list \<Rightarrow> string \<Rightarrow> zipCall list"
  where
  "processJsonStructure rt (JArray xs) currentPath = structureItems rt xs 0 currentPath"
| "processJsonStructure rt (JObject kvs) currentPath = structureEntries rt kvs currentPath"
| "processJsonStructure rt v currentPath =
     [FileCall (if currentPath \<noteq> [] then currentPath else ''data.txt'') (toStringJS rt v)]"
| "structureItems rt [] index currentPath = []"
| "structureItems rt (item # items) index currentPath =
     (let itemPath = joinPath currentPath (''item_'' @ natToString index)
      in (if isObjectLike item then processJsonStructure rt item itemPath
          else [FileCall (itemPath @ ''.txt'') (toStringJS rt item)])
         @ structureItems rt items (index + 1) currentPath)"
| "structureEntries rt [] currentPath = []"
| "structureEntries rt ((key, v) # kvs) currentPath =
     (let sanitizedKey = sanitizeKey key;
          itemPath = joinPath currentPath sanitizedKey
      in (if isObjectLike v then
            (if isEmptyArray v then [FolderCall itemPath []]
             else if isEmptyObject v then [FolderCall itemPath []]
             else processJsonStructure rt v itemPath)
          else [FileCall (itemPath @ primitiveExtension v) (fileContent rt v)])
         @ structureEntries rt kvs currentPath)"
  by pat_completeness auto
termination
  by (relation "measure (\<lambda>x. case x of
            Inl (rt, v, p) \<Rightarrow> size v
          | Inr (Inl (rt, xs, i, p)) \<Rightarrow> size_list size xs
          | Inr (Inr (rt, kvs, p)) \<Rightarrow> size_list (size_prod (\<lambda>k. 0) size) kvs)")
     simp_all

text \<open>
  The handler. Destructuring a body that is \<^verbatim>\<open>null\<close> or \<^verbatim>\<open>undefined\<close> throws a
  \<^verbatim>\<open>TypeError\<close>, which the \<^verbatim>\<open>catch\<close> block turns into the response 500 with the message of
  the error, \<open>typeErrorMessage\<close>. The loading of the library and the compression are taken
  to succeed.
\<close>

definition handler :: "runtime \<Rightarrow> string \<Rightarrow> request \<Rightarrow> response" where
  "handler rt typeErrorMessage req =
     (if httpMethod req \<noteq> ''POST'' then
        JsonResponse 405 (JObject [(''error'', JString ''Method not allowed'')])
      else if body req = None \<or> body req = Some JNull then
        JsonResponse 500
          (JObject [(''error'', JString ''Failed to generate ZIP file''),
                    (''details'', JString typeErrorMessage)])
      else
        (let jsonData = property (the (body req)) ''jsonData'';
             zipName = property (the (body req)) ''zipName''
         in case jsonData of
              None \<Rightarrow> JsonResponse 400 (JObject [(''error'', JString ''JSON data is required'')])
            | Some v \<Rightarrow>
                if falsy v then
                  JsonResponse 400 (JObject [(''error'', JString ''JSON data is required'')])
                else
                  (let files1 = runCalls [] (processJsonStructure rt v []) [];
                       metadata = JObject
                         [(''generatedAt'', JString (now rt 0)),
                          (''originalStructure'', v),
                          (''fileCount'', JNumber (real (length files1)))];
                       files2 = fileAdd ''_metadata.json'' (stringify2 rt metadata) files1;
                       fileName = (case zipName of
                                     None \<Rightarrow> ''converted-json-structure.zip''
                                   | Some n \<Rightarrow> if falsy n then ''converted-json-structure.zip''
                                              else toStringJS rt n)
                   in ZipResponse 200 fileName files2)))"

section \<open>Notions used to state the properties\<close>

subsection \<open>Shapes of sanitized names\<close>

text \<open>No two underscores in a row; an underscore at the end; no underscore at either end.\<close>

fun noAdjacent :: "string \<Rightarrow> bool" where
  "noAdjacent (a # b # cs) \<longleftrightarrow> \<not> (a = CHR ''_'' \<and> b = CHR ''_'') \<and> noAdjacent (b # cs)"
| "noAdjacent _ \<longleftrightarrow> True"

definition endsWithUnderscore :: "string \<Rightarrow> bool" where
  "endsWithUnderscore s \<longleftrightarrow> s \<noteq> [] \<and> last s = CHR ''_''"

definition trimmed :: "string \<Rightarrow> bool" where
  "trimmed s \<longleftrightarrow> s = [] \<or> (hd s \<noteq> CHR ''_'' \<and> last s \<noteq> CHR ''_'')"

text \<open>The first four replacements of \<^const>\<open>sanitizeFileName\<close>, before the cut at 255.\<close>

definition beforeCut :: "string \<Rightarrow> string" where
  "beforeCut x = stripEnds (replaceRuns isUnderscore (replaceRuns isSpaceChar
       (map (\<lambda>c. if isInvalidChar c then CHR ''_'' else c) x)))"

definition plain :: "char \<Rightarrow> bool" where
  "plain c \<longleftrightarrow> \<not> isInvalidChar c \<and> \<not> isSpaceChar c"

subsection \<open>Counting in a JSON value\<close>

text \<open>The number of scalar values (null, booleans, numbers, strings) in a JSON value.\<close>

fun scalarLeaves :: "json \<Rightarrow> nat"
  and leavesOfItems :: "json list \<Rightarrow> nat"
  and leavesOfValues :: "(string \<times> json) list \<Rightarrow> nat" where
  "scalarLeaves (JArray xs) = leavesOfItems xs"
| "scalarLeaves (JObject kvs) = leavesOfValues kvs"
| "scalarLeaves v = 1"
| "leavesOfItems [] = 0"
| "leavesOfItems (x # xs) = scalarLeaves x + leavesOfItems xs"
| "leavesOfValues [] = 0"
| "leavesOfValues ((k, v) # kvs) = scalarLeaves v + leavesOfValues kvs"

text \<open>The number of empty arrays and empty objects in a JSON value, itself included.\<close>

fun emptyContainers :: "json \<Rightarrow> nat"
  and emptyInItems :: "json list \<Rightarrow> nat"
  and emptyInValues :: "(string \<times> json) list \<Rightarrow> nat" where
  "emptyContainers (JArray xs) = (if xs = [] then 1 else emptyInItems xs)"
| "emptyContainers (JObject kvs) = (if kvs = [] then 1 else emptyInValues kvs)"
| "emptyContainers v = 0"
| "emptyInItems [] = 0"
| "emptyInItems (x # xs) = emptyContainers x + emptyInItems xs"
| "emptyInValues [] = 0"
| "emptyInValues ((k, v) # kvs) = emptyContainers v + emptyInValues kvs"

subsection \<open>Counting in trees\<close>

text \<open>The nodes of type \<^verbatim>\<open>'file'\<close> in a preview tree.\<close>

fun fileLeaves :: "previewNode \<Rightarrow> nat" where
  "fileLeaves (PreviewNode name type children depth) =
     (if type = ''file'' then 1 else 0) + sum_list (map fileLeaves children)"

text \<open>
  A \<^typ>\<open>TreeNode\<close> as \<^const>\<open>generateTreeStructure\<close> builds it: a file without children or
  a folder, and so for the children.
\<close>

fun wellFormed :: "TreeNode \<Rightarrow> bool" where
  "wellFormed (TreeNode name type val children expanded) \<longleftrightarrow>
     (type = ''file'' \<and> children = [] \<or> type = ''folder'') \<and> list_all wellFormed children"

subsection \<open>Calls on a folder object and entries of an archive\<close>







text \<open>
  What one round of the loop \<^const>\<open>processKeys\<close> does for a key and its value when the
  clock has been read \<open>k\<close> times: the call it makes, and the count of readings after
  it.
\<close>

definition keyCall :: "runtime \<Rightarrow> config \<Rightarrow> string \<Rightarrow> json \<Rightarrow> nat \<Rightarrow> zipCall" where
  "keyCall rt cfg key v k =
     (if isObjectLike v then
        (if arrayOrNonEmpty v
         then FolderCall (sanitizeFileName key) (fst (processJsonNode rt cfg v k))
         else FileCall (sanitizeFileName (sanitizeFileName key @ fileExtension cfg)) (stringify2 rt v))
      else if timestampFiles cfg then
        FileCall (replaceFirst (sanitizeFileName (sanitizeFileName key @ fileExtension cfg))
                    (fileExtension cfg) (''_'' @ fileTimestamp rt k @ fileExtension cfg))
          (fileContent rt v)
      else FileCall (sanitizeFileName (sanitizeFileName key @ fileExtension cfg)) (fileContent rt v))"

definition keyClock :: "runtime \<Rightarrow> config \<Rightarrow> json \<Rightarrow> nat \<Rightarrow> nat" where
  "keyClock rt cfg v k =
     (if isObjectLike v then (if arrayOrNonEmpty v then snd (processJsonNode rt cfg v k) else k)
      else if timestampFiles cfg then k + 1 else k)"



subsection \<open>The classification cascade as an ordered list of rules\<close>

text \<open>
  A rule is a test on the string with the extension it yields; the first rule whose test
  holds decides, and \<^verbatim>\<open>.txt\<close> is the answer when none does.
\<close>

fun firstMatch :: "((string \<Rightarrow> bool) \<times> string) list \<Rightarrow> string \<Rightarrow> string" where
  "firstMatch [] s = ''.txt''"
| "firstMatch ((test, extension) # rules) s = (if test s then extension else firstMatch rules s)"

definition looksLikeHtml :: "string \<Rightarrow> bool" where
  "looksLikeHtml s \<longleftrightarrow> startsWith (trim s) ''<'' \<and> endsWith (trim s) ''>''"

definition looksLikeCss :: "string \<Rightarrow> bool" where
  "looksLikeCss s \<longleftrightarrow> includesStr s ''{'' \<and> includesStr s ''}'' \<and> includesStr s '':''"

text \<open>The cascade in the words of the specification: six keywords for \<^verbatim>\<open>.js\<close>, and a rule for \<^verbatim>\<open>.md\<close>.\<close>

definition specifiedCascade :: "((string \<Rightarrow> bool) \<times> string) list" where
  "specifiedCascade =
     [(parsesAsJSON, ''.json''),
      (looksLikeHtml, ''.html''),
      (looksLikeCss, ''.css''),
      (\<lambda>s. includesStr s ''function'' \<or> includesStr s ''=>'' \<or> includesStr s ''const ''
            \<or> includesStr s ''let '' \<or> includesStr s ''var '' \<or> includesStr s ''import '', ''.js''),
      (\<lambda>s. includesStr s ''#'' \<or> includesStr s ''**'', ''.md'')]"

text \<open>The cascade that \<^const>\<open>getFileExtension\<close> is compared with: four keywords, no rule for \<^verbatim>\<open>.md\<close>.\<close>

definition implementedCascade :: "((string \<Rightarrow> bool) \<times> string) list" where
  "implementedCascade =
     [(parsesAsJSON, ''.json''),
      (looksLikeHtml, ''.html''),
      (looksLikeCss, ''.css''),
      (\<lambda>s. includesStr s ''function'' \<or> includesStr s ''=>'' \<or> includesStr s ''var ''
            \<or> includesStr s ''const '', ''.js'')]"

subsection \<open>An environment and options for the examples\<close>

text \<open>
  A runtime in which an integral number prints as its digits and the \<open>k\<close>-th reading of
  the clock is a fixed date with \<open>k\<close> as the last digits; the options object \<^verbatim>\<open>{}\<close>.
\<close>

definition exampleNumberToString :: "real \<Rightarrow> string" where
  "exampleNumberToString x = natToString (nat \<lfloor>x\<rfloor>)"

definition exampleNow :: "nat \<Rightarrow> string" where
  "exampleNow k = ''2024-01-02T03:04:05.00'' @ natToString k @ ''Z''"

definition exampleRuntime :: runtime where
  "exampleRuntime = \<lparr>numberToString = exampleNumberToString, now = exampleNow\<rparr>"

definition noOptions :: options where
  "noOptions = \<lparr>includeMetadataOption = None, fileExtensionOption = None,
                 createReadmeOption = None, timestampFilesOption = None\<rparr>"

section \<open>Properties of \<^const>\<open>sanitizeFileName\<close>\<close>

lemma replaceRuns_fixed: "list_all (\<lambda>c. \<not> p c) s \<Longrightarrow> replaceRuns p s = s"
  by (induction s) auto

lemma replaceRuns_all:
  "list_all q s \<Longrightarrow> q (CHR ''_'') \<Longrightarrow> list_all q (replaceRuns p s)"
proof (induction p s rule: replaceRuns.induct)
  case (1 p)
  then show ?case by simp
next
  case (2 p c cs)
  have "list_all q (dropWhile p cs)"
    using 2(3) by (auto simp: list_all_iff dest: set_dropWhileD)
  with 2 show ?case by auto
qed

lemma replaceRuns_none: "\<not> p (CHR ''_'') \<Longrightarrow> list_all (\<lambda>c. \<not> p c) (replaceRuns p s)"
proof (induction p s rule: replaceRuns.induct)
  case (1 p)
  then show ?case by simp
next
  case (2 p c cs)
  then show ?case by auto
qed

lemma replaceRuns_head:
  "replaceRuns p s = [] \<or> (s \<noteq> [] \<and> hd (replaceRuns p s) = (if p (hd s) then CHR ''_'' else hd s))"
  by (cases s) auto

lemma dropWhile_head: "dropWhile p s = [] \<or> \<not> p (hd (dropWhile p s))"
  using hd_dropWhile by blast

lemma noAdjacent_Cons:
  "noAdjacent (a # s) \<longleftrightarrow> (s = [] \<or> \<not> (a = CHR ''_'' \<and> hd s = CHR ''_'')) \<and> noAdjacent s"
  by (cases s) auto

lemma replaceRuns_noAdjacent: "noAdjacent (replaceRuns isUnderscore s)"
proof (induction "isUnderscore" s rule: replaceRuns.induct)
  case 1
  then show ?case by simp
next
  case (2 c cs)
  show ?case
  proof (cases "isUnderscore c")
    case True
    let ?t = "dropWhile isUnderscore cs"
    have "replaceRuns isUnderscore ?t = [] \<or> hd (replaceRuns isUnderscore ?t) \<noteq> CHR ''_''"
      using replaceRuns_head [of isUnderscore ?t] dropWhile_head [of isUnderscore cs]
      by (auto simp: isUnderscore_def)
    with True 2 show ?thesis by (auto simp: noAdjacent_Cons)
  next
    case False
    with 2 show ?thesis by (auto simp: noAdjacent_Cons isUnderscore_def)
  qed
qed

lemma noAdjacent_fixed: "noAdjacent s \<Longrightarrow> replaceRuns isUnderscore s = s"
proof (induction s)
  case Nil
  then show ?case by simp
next
  case (Cons c cs)
  then show ?case by (cases cs) (auto simp: isUnderscore_def)
qed

lemma noAdjacent_take: "noAdjacent s \<Longrightarrow> noAdjacent (take n s)"
proof (induction s arbitrary: n rule: noAdjacent.induct)
  case (1 a b cs)
  show ?case
  proof (cases n)
    case 0
    then show ?thesis by simp
  next
    case (Suc m)
    show ?thesis
    proof (cases m)
      case 0
      with Suc show ?thesis by simp
    next
      case (Suc k)
      with 1(1) [of "Suc k"] 1(2) \<open>n = Suc m\<close> show ?thesis by simp
    qed
  qed
qed (simp_all add: take_Cons')

lemma butlast_differs: "s \<noteq> [] \<Longrightarrow> butlast s \<noteq> s"
  by (induction s) auto

lemma noAdjacent_butlast: "noAdjacent s \<Longrightarrow> noAdjacent (butlast s)"
  using noAdjacent_take [of s "length s - 1"] by (simp add: butlast_conv_take)

lemma noAdjacent_last:
  "noAdjacent s \<Longrightarrow> s \<noteq> [] \<Longrightarrow> last s = CHR ''_'' \<Longrightarrow>
   butlast s = [] \<or> last (butlast s) \<noteq> CHR ''_''"
proof (induction s rule: noAdjacent.induct)
  case (1 a b cs)
  then show ?case by (cases cs) (auto split: if_splits)
qed auto

lemma stripEnds_trimmed: "noAdjacent s \<Longrightarrow> trimmed (stripEnds s)"
proof -
  assume na: "noAdjacent s"
  define s1 where "s1 = (case s of [] \<Rightarrow> [] | c # cs \<Rightarrow> if c = CHR ''_'' then cs else s)"
  have s1_na: "noAdjacent s1"
    using na by (cases s) (auto simp: s1_def noAdjacent_Cons)
  have s1_hd: "s1 = [] \<or> hd s1 \<noteq> CHR ''_''"
    using na by (cases s) (auto simp: s1_def noAdjacent_Cons)
  have eq: "stripEnds s = (if s1 \<noteq> [] \<and> last s1 = CHR ''_'' then butlast s1 else s1)"
    by (simp add: stripEnds_def s1_def)
  show ?thesis
  proof (cases "s1 \<noteq> [] \<and> last s1 = CHR ''_''")
    case True
    then have "butlast s1 = [] \<or> last (butlast s1) \<noteq> CHR ''_''"
      using noAdjacent_last [OF s1_na] by blast
    moreover have "butlast s1 = [] \<or> hd (butlast s1) = hd s1"
      by (cases s1) auto
    ultimately show ?thesis using True s1_hd eq by (auto simp: trimmed_def)
  next
    case False
    then show ?thesis using s1_hd eq by (auto simp: trimmed_def)
  qed
qed

lemma stripEnds_sub: "list_all q s \<Longrightarrow> list_all q (stripEnds s)"
  by (cases s) (auto simp: stripEnds_def Let_def list_all_iff dest: in_set_butlastD)

lemma stripEnds_noAdjacent: "noAdjacent s \<Longrightarrow> noAdjacent (stripEnds s)"
  by (cases s) (auto simp: stripEnds_def Let_def noAdjacent_Cons intro: noAdjacent_butlast)

lemma stripEnds_headed:
  "s = [] \<or> hd s \<noteq> CHR ''_'' \<Longrightarrow>
   stripEnds s = (if endsWithUnderscore s then butlast s else s)"
  by (cases s) (auto simp: stripEnds_def endsWithUnderscore_def)

lemma stripEnds_length: "length (stripEnds s) \<le> length s"
  by (cases s) (auto simp: stripEnds_def Let_def)

lemma replaceRuns_length: "length (replaceRuns p s) \<le> length s"
proof (induction p s rule: replaceRuns.induct)
  case (1 p)
  then show ?case by simp
next
  case (2 p c cs)
  have "length (dropWhile p cs) \<le> length cs" by (rule length_dropWhile_le)
  with 2 show ?case by auto
qed

lemma beforeCut_plain: "list_all plain (beforeCut x)"
proof -
  let ?m = "map (\<lambda>c. if isInvalidChar c then CHR ''_'' else c) x"
  have a: "list_all (\<lambda>c. \<not> isInvalidChar c) ?m"
    by (induction x) (auto simp: isInvalidChar_def)
  have b: "list_all (\<lambda>c. \<not> isInvalidChar c) (replaceRuns isSpaceChar ?m)"
    by (rule replaceRuns_all [OF a]) (simp add: isInvalidChar_def)
  have c: "list_all (\<lambda>c. \<not> isSpaceChar c) (replaceRuns isSpaceChar ?m)"
    by (rule replaceRuns_none) (simp add: isSpaceChar_def)
  have "list_all plain (replaceRuns isSpaceChar ?m)"
    using b c by (simp add: list_all_iff plain_def)
  then have "list_all plain (replaceRuns isUnderscore (replaceRuns isSpaceChar ?m))"
    by (rule replaceRuns_all) (simp add: plain_def isInvalidChar_def isSpaceChar_def)
  then show ?thesis unfolding beforeCut_def by (rule stripEnds_sub)
qed

lemma beforeCut_noAdjacent: "noAdjacent (beforeCut x)"
  unfolding beforeCut_def by (rule stripEnds_noAdjacent) (rule replaceRuns_noAdjacent)

lemma beforeCut_trimmed: "trimmed (beforeCut x)"
  unfolding beforeCut_def by (rule stripEnds_trimmed) (rule replaceRuns_noAdjacent)

lemma beforeCut_length: "length (beforeCut x) \<le> length x"
proof -
  let ?m = "map (\<lambda>c. if isInvalidChar c then CHR ''_'' else c) x"
  have "length (beforeCut x) \<le> length (replaceRuns isUnderscore (replaceRuns isSpaceChar ?m))"
    unfolding beforeCut_def by (rule stripEnds_length)
  also have "\<dots> \<le> length (replaceRuns isSpaceChar ?m)" by (rule replaceRuns_length)
  also have "\<dots> \<le> length ?m" by (rule replaceRuns_length)
  finally show ?thesis by simp
qed

lemma sanitizeFileName_cut: "sanitizeFileName x = take 255 (beforeCut x)"
  by (simp add: sanitizeFileName_def beforeCut_def)

lemma beforeCut_of_headed:
  assumes "list_all plain y" "noAdjacent y" "y = [] \<or> hd y \<noteq> CHR ''_''"
  shows "beforeCut y = (if endsWithUnderscore y then butlast y else y)"
proof -
  have m: "map (\<lambda>c. if isInvalidChar c then CHR ''_'' else c) y = y"
    using assms(1) by (induction y) (auto simp: plain_def)
  have "list_all (\<lambda>c. \<not> isSpaceChar c) y"
    using assms(1) by (simp add: list_all_iff plain_def)
  then have w: "replaceRuns isSpaceChar y = y" by (rule replaceRuns_fixed)
  have u: "replaceRuns isUnderscore y = y" using assms(2) by (rule noAdjacent_fixed)
  show ?thesis
    unfolding beforeCut_def m w u using assms(3) by (rule stripEnds_headed)
qed

text \<open>
  A second application only removes an underscore that the cut at 255 has left at the
  end.
\<close>

lemma sanitizeFileName_twice:
  "sanitizeFileName (sanitizeFileName x) =
     (if endsWithUnderscore (sanitizeFileName x) then butlast (sanitizeFileName x)
      else sanitizeFileName x)"
proof -
  let ?y = "sanitizeFileName x"
  have y: "?y = take 255 (beforeCut x)" by (rule sanitizeFileName_cut)
  have p: "list_all plain ?y"
    using beforeCut_plain [of x] unfolding y by (auto simp: list_all_iff dest: in_set_takeD)
  have n: "noAdjacent ?y" unfolding y by (rule noAdjacent_take) (rule beforeCut_noAdjacent)
  have h: "?y = [] \<or> hd ?y \<noteq> CHR ''_''"
    using beforeCut_trimmed [of x] unfolding y trimmed_def
    by (cases "beforeCut x") auto
  have len: "length ?y \<le> 255" unfolding y by simp
  have b: "beforeCut ?y = (if endsWithUnderscore ?y then butlast ?y else ?y)"
    by (rule beforeCut_of_headed [OF p n h])
  have "sanitizeFileName ?y = take 255 (beforeCut ?y)" by (rule sanitizeFileName_cut)
  also have "\<dots> = beforeCut ?y" using len beforeCut_length [of ?y] by simp
  finally show ?thesis using b by simp
qed

lemma sanitizeFileName_short:
  "length x \<le> 255 \<Longrightarrow> \<not> endsWithUnderscore (sanitizeFileName x)"
proof -
  assume "length x \<le> 255"
  then have "length (beforeCut x) \<le> 255" using beforeCut_length [of x] by simp
  then have "sanitizeFileName x = beforeCut x" by (simp add: sanitizeFileName_cut)
  then show ?thesis using beforeCut_trimmed [of x]
    by (auto simp: trimmed_def endsWithUnderscore_def)
qed

text \<open>
  Claim C3, as amended. \<^const>\<open>sanitizeFileName\<close> is idempotent on every name of at most
  255 units, the empty name included; on any name, applying it twice gives the same as
  applying it once exactly when the result of the first application does not end with
  an underscore, which only the cut at 255 units can leave there.
\<close>

theorem sanitizeFileName_idempotent_unless_cut:
  "(length x \<le> 255 \<longrightarrow> sanitizeFileName (sanitizeFileName x) = sanitizeFileName x) \<and>
   (sanitizeFileName (sanitizeFileName x) = sanitizeFileName x
      \<longleftrightarrow> \<not> endsWithUnderscore (sanitizeFileName x))"
proof -
  have "endsWithUnderscore (sanitizeFileName x) \<Longrightarrow>
        butlast (sanitizeFileName x) \<noteq> sanitizeFileName x"
    by (simp add: endsWithUnderscore_def butlast_differs)
  then show ?thesis
    using sanitizeFileName_twice [of x] sanitizeFileName_short [of x] by auto
qed

theorem sanitizeFileName_idempotent_unless_cut_witness:
  "length ''my report: v2 .txt'' \<le> 255 \<and>
   sanitizeFileName ''my report: v2 .txt'' = ''my_report_v2_.txt'' \<and>
   \<not> endsWithUnderscore (sanitizeFileName ''my report: v2 .txt'') \<and>
   sanitizeFileName (sanitizeFileName ''my report: v2 .txt'') = sanitizeFileName ''my report: v2 .txt''"
  using sanitizeFileName_idempotent_unless_cut [of "''my report: v2 .txt''"]
  by (simp add: sanitizeFileName_def stripEnds_def isInvalidChar_def isSpaceChar_def
      isUnderscore_def endsWithUnderscore_def)

text \<open>
  The claim as the specification states it fails for a name of 256 units whose 255th is an
  underscore: the first application cuts behind the underscore, the second removes it.
\<close>

theorem sanitizeFileName_not_idempotent:
  "sanitizeFileName (sanitizeFileName (replicate 254 (CHR ''a'') @ ''_b''))
     \<noteq> sanitizeFileName (replicate 254 (CHR ''a'') @ ''_b'')"
  by code_simp

section \<open>Properties of the JSON parser library\<close>

subsection \<open>The counting methods and the statistics\<close>

lemma foldl_plus: "foldl (\<lambda>(a::nat) c. a + f c) a0 xs = a0 + sum_list (map f xs)"
  by (induction xs arbitrary: a0) auto

lemma getFileCount_sum:
  "getFileCount (TreeNode name type val children expanded) =
     (if type = ''file'' then 1 else sum_list (map getFileCount children))"
  by (simp add: foldl_plus)

lemma getFolderCount_sum:
  "getFolderCount (TreeNode name type val children expanded) =
     (if type = ''folder'' then 1 else 0) + sum_list (map getFolderCount children)"
  by (simp add: foldl_plus)

lemma wellFormed_created:
  "wellFormed (createTreeNode v name)"
  "list_all wellFormed (createEntryNodes kvs)"
  "list_all wellFormed (createItemNodes xs i)"
  by (induction v name and kvs and xs i rule: createTreeNode_createEntryNodes_createItemNodes.induct)
     simp_all

lemma fold_totals:
  assumes "\<And>c d s. c \<in> set cs \<Longrightarrow>
             totalFiles (calculateStats rt c d s) = totalFiles s + getFileCount c \<and>
             totalFolders (calculateStats rt c d s) = totalFolders s + getFolderCount c"
  shows "totalFiles (fold (\<lambda>child s. calculateStats rt child d s) cs s0)
           = totalFiles s0 + sum_list (map getFileCount cs) \<and>
         totalFolders (fold (\<lambda>child s. calculateStats rt child d s) cs s0)
           = totalFolders s0 + sum_list (map getFolderCount cs)"
  using assms by (induction cs arbitrary: s0) auto

lemma calculateStats_totals:
  "wellFormed t \<Longrightarrow>
     totalFiles (calculateStats rt t d s) = totalFiles s + getFileCount t \<and>
     totalFolders (calculateStats rt t d s) = totalFolders s + getFolderCount t"
proof (induction t arbitrary: d s)
  case (TreeNode name type val children expanded)
  have wf: "\<And>c. c \<in> set children \<Longrightarrow> wellFormed c"
    using TreeNode.prems by (simp add: list_all_iff)
  show ?case
  proof (cases "type = ''file''")
    case True
    with TreeNode.prems have "children = []" by auto
    with True show ?thesis by (simp add: Let_def)
  next
    case False
    with TreeNode.prems have folder: "type = ''folder''" by auto
    have step: "\<And>c d s. c \<in> set children \<Longrightarrow>
             totalFiles (calculateStats rt c d s) = totalFiles s + getFileCount c \<and>
             totalFolders (calculateStats rt c d s) = totalFolders s + getFolderCount c"
      using TreeNode.IH wf by blast
    show ?thesis
      using fold_totals [of children rt, OF step] False folder
      by (simp add: Let_def foldl_plus)
  qed
qed

text \<open>
  Claim C10. On every tree that \<^const>\<open>generateTreeStructure\<close> builds, the methods
  \<^verbatim>\<open>getFileCount\<close> and \<^verbatim>\<open>getFolderCount\<close> return the totals \<^verbatim>\<open>totalFiles\<close> and
  \<^verbatim>\<open>totalFolders\<close> of \<^const>\<open>getTreeStatistics\<close>.
\<close>

theorem counts_agree_with_statistics:
  "getFileCount (generateTreeStructure v rootName)
     = totalFiles (getTreeStatistics rt (generateTreeStructure v rootName)) \<and>
   getFolderCount (generateTreeStructure v rootName)
     = totalFolders (getTreeStatistics rt (generateTreeStructure v rootName))"
  using calculateStats_totals [OF wellFormed_created(1), of rt v rootName 0]
  by (simp add: getTreeStatistics_def generateTreeStructure_def)

theorem counts_agree_with_statistics_witness:
  "getFileCount (generateTreeStructure (JObject [(''a'', JArray [JNull, JBool True]), (''b'', JObject [])]) ''root'') = 2 \<and>
   totalFiles (getTreeStatistics exampleRuntime
     (generateTreeStructure (JObject [(''a'', JArray [JNull, JBool True]), (''b'', JObject [])]) ''root'')) = 2 \<and>
   getFolderCount (generateTreeStructure (JObject [(''a'', JArray [JNull, JBool True]), (''b'', JObject [])]) ''root'') = 3 \<and>
   totalFolders (getTreeStatistics exampleRuntime
     (generateTreeStructure (JObject [(''a'', JArray [JNull, JBool True]), (''b'', JObject [])]) ''root'')) = 3"
proof -
  have "getFileCount (generateTreeStructure
          (JObject [(''a'', JArray [JNull, JBool True]), (''b'', JObject [])]) ''root'') = 2"
    by code_simp
  moreover have "getFolderCount (generateTreeStructure
          (JObject [(''a'', JArray [JNull, JBool True]), (''b'', JObject [])]) ''root'') = 3"
    by code_simp
  ultimately show ?thesis
    using counts_agree_with_statistics
      [of "JObject [(''a'', JArray [JNull, JBool True]), (''b'', JObject [])]" "''root''" exampleRuntime]
    by simp
qed

subsection \<open>The extension of a scalar\<close>

text \<open>
  Claim C1, as amended. For every string, \<^const>\<open>getFileExtension\<close> applies this cascade,
  the first rule that holds deciding: the string parses as JSON, \<^verbatim>\<open>.json\<close>; else the trimmed
  string starts with \<^verbatim>\<open><\<close> and ends with \<^verbatim>\<open>>\<close>, \<^verbatim>\<open>.html\<close>; else it contains \<^verbatim>\<open>{\<close>, \<^verbatim>\<open>}\<close> and
  \<^verbatim>\<open>:\<close>, \<^verbatim>\<open>.css\<close>; else it contains one of \<^verbatim>\<open>function\<close>, \<^verbatim>\<open>=>\<close>, \<^verbatim>\<open>var \<close>, \<^verbatim>\<open>const \<close>, \<^verbatim>\<open>.js\<close>;
  else \<^verbatim>\<open>.txt\<close>. The keywords \<^verbatim>\<open>let \<close> and \<^verbatim>\<open>import \<close> and the rule for \<^verbatim>\<open>.md\<close> are not part of
  it.
\<close>

theorem getFileExtension_cascade:
  "getFileExtension (JString s) = firstMatch implementedCascade s"
  by (simp add: implementedCascade_def looksLikeHtml_def looksLikeCss_def)

theorem getFileExtension_cascade_witness:
  "getFileExtension (JString ''const x = 1'') = firstMatch implementedCascade ''const x = 1'' \<and>
   firstMatch implementedCascade ''const x = 1'' = ''.js''"
proof -
  have "firstMatch implementedCascade ''const x = 1'' = ''.js''" by code_simp
  then show ?thesis using getFileExtension_cascade [of "''const x = 1''"] by simp
qed

text \<open>
  The cascade of the specification gives \<^verbatim>\<open>.js\<close> for a string with the keyword \<^verbatim>\<open>let \<close>;
  \<^const>\<open>getFileExtension\<close> gives \<^verbatim>\<open>.txt\<close>.
\<close>

theorem getFileExtension_not_specified_cascade:
  "getFileExtension (JString ''let x = 1'') = ''.txt'' \<and>
   firstMatch specifiedCascade ''let x = 1'' = ''.js''"
  by code_simp

text \<open>
  Claim C2, as amended. \<^const>\<open>getFileExtension\<close> returns \<^verbatim>\<open>.json\<close> for null, and \<^verbatim>\<open>.txt\<close> for
  every number and every boolean; it has no parameter for a default extension. (The
  classifier of the second copy of the generator, \<^const>\<open>getSmartFileExtension\<close>, returns
  \<^verbatim>\<open>.json\<close> for all three kinds.)
\<close>

theorem getFileExtension_non_strings:
  "getFileExtension JNull = ''.json'' \<and>
   getFileExtension (JNumber x) = ''.txt'' \<and>
   getFileExtension (JBool b) = ''.txt'' \<and>
   getSmartFileExtension JNull = ''.json'' \<and>
   getSmartFileExtension (JNumber x) = ''.json'' \<and>
   getSmartFileExtension (JBool b) = ''.json''"
  by simp

theorem getFileExtension_non_strings_witness:
  "getFileExtension JNull = ''.json'' \<and>
   getFileExtension (JNumber 42) = ''.txt'' \<and>
   getFileExtension (JBool False) = ''.txt''"
  using getFileExtension_non_strings [of 42 False] by simp

text \<open>The number 1 does not get \<^verbatim>\<open>.json\<close>.\<close>

theorem getFileExtension_number_not_json:
  "getFileExtension (JNumber 1) \<noteq> ''.json''"
  by simp

text \<open>
  The second classifier has the six keywords and the rule for \<^verbatim>\<open>.md\<close>, but it tries
  \<^verbatim>\<open>JSON.parse\<close> only after the tests for HTML, CSS and JavaScript: a JSON object in a string is
  classified as CSS.
\<close>

lemma getSmartFileExtension_json_object:
  "getSmartFileExtension (JString ''{ : }'') = ''.css'' \<and>
   getSmartFileExtension (JString ''let x = 1'') = ''.js'' \<and>
   getSmartFileExtension (JString ''# Title'') = ''.md'' \<and>
   getSmartFileExtension (JString ([CHR ''{'', CHR 0x22, CHR ''a'', CHR 0x22, CHR '':'', CHR ''1'', CHR ''}''])) = ''.css'' \<and>
   parsesAsJSON [CHR ''{'', CHR 0x22, CHR ''a'', CHR 0x22, CHR '':'', CHR ''1'', CHR ''}'']"
  by code_simp

section \<open>Properties of the preview and of the statistics\<close>

lemma fileCount_addSubStats [simp]:
  "fileCount (addSubStats st sub) = fileCount st + fileCount sub"
  by (simp add: addSubStats_def)

lemma fileCount_analyze:
  "fileCount (analyzeJsonStructure v depth) = scalarLeaves v"
  "fileCount (analyzeItems xs depth st) = fileCount st + leavesOfItems xs"
  "fileCount (analyzeValues kvs depth st) = fileCount st + leavesOfValues kvs"
  by (induction v depth and xs depth st and kvs depth st
      rule: analyzeJsonStructure_analyzeItems_analyzeValues.induct) simp_all

lemma scalar_counts: "\<not> isObjectLike v \<Longrightarrow> scalarLeaves v = 1 \<and> emptyContainers v = 0"
  by (cases v) simp_all

lemma fileLeaves_preview:
  "fileLeaves (createFileStructure v name depth) = scalarLeaves v + emptyContainers v"
  "sum_list (map fileLeaves (previewItems xs i depth)) = leavesOfItems xs + emptyInItems xs"
  "sum_list (map fileLeaves (previewKeys kvs depth)) = leavesOfValues kvs + emptyInValues kvs"
proof (induction v name depth and xs i depth and kvs depth
      rule: createFileStructure_previewItems_previewKeys.induct)
  case (1 xs name depth)
  then show ?case by (cases xs) simp_all
next
  case (2 kvs name depth)
  then show ?case by (cases kvs) simp_all
next
  case (5 item items index depth)
  then show ?case by (cases "isObjectLike item") (simp_all add: scalar_counts)
next
  case (7 key v kvs depth)
  then show ?case by (cases "isObjectLike v") (simp_all add: scalar_counts)
qed simp_all

text \<open>
  Claim C6, as amended. \<^const>\<open>createFileStructure\<close> is a total function (its recursion is
  on the structure of the JSON value), and the number of file nodes in its result is the
  \<^verbatim>\<open>fileCount\<close> of \<^const>\<open>analyzeJsonStructure\<close> plus the number of empty arrays and empty
  objects in the value, each of which gets a placeholder file.
\<close>

theorem preview_file_leaves:
  "fileLeaves (createFileStructure v name depth)
     = fileCount (analyzeJsonStructure v 0) + emptyContainers v"
  by (simp add: fileLeaves_preview(1) fileCount_analyze(1))

theorem preview_file_leaves_witness:
  "fileLeaves (createFileStructure (JObject [(''a'', JArray []), (''b'', JNumber 1)]) ''root'' 0) = 2 \<and>
   fileCount (analyzeJsonStructure (JObject [(''a'', JArray []), (''b'', JNumber 1)]) 0) = 1 \<and>
   emptyContainers (JObject [(''a'', JArray []), (''b'', JNumber 1)]) = 1"
proof -
  have "fileCount (analyzeJsonStructure (JObject [(''a'', JArray []), (''b'', JNumber 1)]) 0) = 1"
    by code_simp
  moreover have "emptyContainers (JObject [(''a'', JArray []), (''b'', JNumber 1)]) = 1"
    by code_simp
  ultimately show ?thesis
    using preview_file_leaves [of "JObject [(''a'', JArray []), (''b'', JNumber 1)]" "''root''" 0]
    by simp
qed

text \<open>The empty array has no scalar, and its preview has one file node.\<close>

theorem preview_file_leaves_counterexample:
  "fileLeaves (createFileStructure (JArray []) ''root'' 0)
     \<noteq> fileCount (analyzeJsonStructure (JArray []) 0)"
  by simp

section \<open>Properties of the archive\<close>

subsection \<open>The entries of a JSZip instance\<close>

lemma folderAdd_unfold:
  "folderAdd name files =
     (if map_of files (forceTrailingSlash name) \<noteq> None then files
      else AList.update (forceTrailingSlash name) \<lparr>dir = True, content = []\<rparr>
             (if parentFolder (forceTrailingSlash name) \<noteq> []
              then folderAdd (parentFolder (forceTrailingSlash name)) files else files))"
  by (subst folderAdd.simps) (simp add: Let_def)












subsection \<open>The calls of \<^const>\<open>processJsonNode\<close>\<close>





lemma processItems_fst:
  "fst (processItems rt cfg [] i k) = []"
  "fst (processItems rt cfg (item # items) i k) =
     (if isObjectLike item
      then FolderCall (itemName i) (fst (processJsonNode rt cfg item k))
             # fst (processItems rt cfg items (i + 1) (snd (processJsonNode rt cfg item k)))
      else FileCall (sanitizeFileName (itemName i @ fileExtension cfg)) (fileContent rt item)
             # fst (processItems rt cfg items (i + 1) k))"
  by (simp_all split: prod.splits)

lemma processKeys_fst:
  "fst (processKeys rt cfg [] k) = []"
  "fst (processKeys rt cfg ((key, v) # kvs) k) =
     keyCall rt cfg key v k # fst (processKeys rt cfg kvs (keyClock rt cfg v k))"
  by (simp_all add: keyCall_def keyClock_def Let_def split: prod.splits)

lemma processItems_length: "length (fst (processItems rt cfg xs i k)) = length xs"
  by (induction xs arbitrary: i k) (simp_all add: processItems_fst del: processItems.simps)

lemma processKeys_length: "length (fst (processKeys rt cfg kvs k)) = length kvs"
  by (induction kvs arbitrary: k) (auto simp: processKeys_fst simp del: processKeys.simps)









subsection \<open>Empty arrays and objects\<close>








lemma preview_scalar:
  "\<not> isObjectLike v \<Longrightarrow> createFileStructure v name depth = PreviewNode (name @ ''.json'') ''file'' [] depth"
  by (cases v) simp_all






















subsection \<open>A scalar at the root\<close>

lemma scalar_root_call:
  "\<not> isObjectLike v \<Longrightarrow>
   fst (processJsonNode rt cfg v k) =
     [FileCall (sanitizeFileName ((if v = JNull then ''null'' else ''value'') @ fileExtension cfg))
               (if v = JNull then ''null'' else fileContent rt v)]"
  by (cases v) simp_all

lemma sanitize_null_json: "sanitizeFileName ''null.json'' = ''null.json''"
  by code_simp

lemma folderAdd_root: "folderAdd ''root'' [] = [(''root/'', \<lparr>dir = True, content = []\<rparr>)]"
  by code_simp

lemma parent_of_root_files:
  "parentFolder ''root/null.json'' = ''root''"
  "parentFolder ''root/README.md'' = ''root''"
  "parentFolder ''root/_metadata.json'' = ''root''"
  by code_simp+

lemma folderAdd_root_again:
  "map_of files ''root/'' \<noteq> None \<Longrightarrow> folderAdd ''root'' files = files"
  by (subst folderAdd_unfold) (simp add: forceTrailingSlash_def)

lemma null_root_archive:
  "generateZipFromJson rt JNull ''root'' noOptions =
     [(''root/'', \<lparr>dir = True, content = []\<rparr>),
      (''root/null.json'', \<lparr>dir = False, content = ''null''\<rparr>),
      (''root/README.md'', \<lparr>dir = False, content = generateReadmeContent rt JNull ''root'' 0\<rparr>),
      (''root/_metadata.json'',
         \<lparr>dir = False, content = stringify2 rt (generateMetadata rt JNull ''root'' 1)\<rparr>)]"
  by (simp add: generateZipFromJson_def noOptions_def withDefaults_def rootPrefix_def
        forceTrailingSlash_def sanitize_null_json folderAdd_root fileAdd_def
        parent_of_root_files folderAdd_root_again)

text \<open>
  Claim C5, as amended. When the root value is a scalar, \<^const>\<open>processJsonNode\<close> writes a
  single file into the root folder, named \<^verbatim>\<open>null\<close> plus the extension (sanitized) with the
  content \<^verbatim>\<open>null\<close> for null, and \<^verbatim>\<open>value\<close> plus the extension for any other scalar; the root
  name is the name of the folder, not of the file. For null, the root name \<^verbatim>\<open>root\<close> and the
  options \<^verbatim>\<open>{}\<close> the files of the archive are \<^verbatim>\<open>root/null.json\<close> with the content \<^verbatim>\<open>null\<close>,
  \<^verbatim>\<open>root/README.md\<close> and \<^verbatim>\<open>root/_metadata.json\<close>. The preview built by
  \<^const>\<open>createFileStructure\<close> is, for a scalar root, the single file node named by the root
  name followed by \<^verbatim>\<open>.json\<close>.
\<close>

theorem scalar_root_file:
  "(\<not> isObjectLike v \<longrightarrow>
      fst (processJsonNode rt cfg v k) =
        [FileCall (sanitizeFileName ((if v = JNull then ''null'' else ''value'') @ fileExtension cfg))
                  (if v = JNull then ''null'' else fileContent rt v)])
   \<and> map fst (fileEntries (generateZipFromJson rt JNull ''root'' noOptions))
        = [''root/null.json'', ''root/README.md'', ''root/_metadata.json'']
   \<and> map_of (generateZipFromJson rt JNull ''root'' noOptions) ''root/null.json''
        = Some \<lparr>dir = False, content = ''null''\<rparr>
   \<and> (\<not> isObjectLike v \<longrightarrow>
        createFileStructure v rootName depth = PreviewNode (rootName @ ''.json'') ''file'' [] depth)"
  using scalar_root_call [of v rt cfg k] preview_scalar [of v rootName depth]
  by (simp add: null_root_archive fileEntries_def)

theorem scalar_root_file_witness:
  "\<not> isObjectLike (JBool True) \<and>
   fst (processJsonNode exampleRuntime (withDefaults noOptions) (JBool True) 0)
     = [FileCall ''value.json'' ''true'']"
proof -
  have "sanitizeFileName ''value.json'' = ''value.json''" by code_simp
  then show ?thesis
    using scalar_root_file [of "JBool True" exampleRuntime "withDefaults noOptions" 0]
    by (simp add: withDefaults_def noOptions_def stringify2_def)
qed

text \<open>
  For null with the root name \<^verbatim>\<open>root\<close> the archive has three files, and none of them is
  \<^verbatim>\<open>root.json\<close>.
\<close>

theorem null_root_not_single_file:
  "map fst (fileEntries (generateZipFromJson exampleRuntime JNull ''root'' noOptions))
     = [''root/null.json'', ''root/README.md'', ''root/_metadata.json''] \<and>
   map_of (generateZipFromJson exampleRuntime JNull ''root'' noOptions) ''root.json'' = None"
  by code_simp

subsection \<open>The number of entries\<close>







subsection \<open>The names of the children of an array\<close>






















section \<open>Properties of the HTTP handler\<close>

text \<open>
  Claim C9. A POST request whose body has a falsy \<^verbatim>\<open>jsonData\<close> (null, false, 0 or the empty
  string) is answered with status 400 and the error \<^verbatim>\<open>JSON data is required\<close>, without an
  archive; and whenever the handler answers with an archive, \<^verbatim>\<open>jsonData\<close> was present and
  truthy.
\<close>

theorem falsy_jsonData_rejected:
  "(httpMethod req = ''POST'' \<and> body req = Some b \<and> property b ''jsonData'' = Some v \<and> falsy v
      \<longrightarrow> handler rt msg req = JsonResponse 400 (JObject [(''error'', JString ''JSON data is required'')]))
   \<and> (handler rt msg req = ZipResponse status fileName files
      \<longrightarrow> (\<exists>b v. body req = Some b \<and> property b ''jsonData'' = Some v \<and> \<not> falsy v))"
proof (intro conjI impI)
  assume a: "httpMethod req = ''POST'' \<and> body req = Some b \<and> property b ''jsonData'' = Some v \<and> falsy v"
  then have "b \<noteq> JNull" by auto
  with a show "handler rt msg req = JsonResponse 400 (JObject [(''error'', JString ''JSON data is required'')])"
    by (simp add: handler_def)
next
  assume "handler rt msg req = ZipResponse status fileName files"
  then show "\<exists>b v. body req = Some b \<and> property b ''jsonData'' = Some v \<and> \<not> falsy v"
    by (auto simp: handler_def Let_def split: if_splits option.splits)
qed

theorem falsy_jsonData_rejected_witness:
  "httpMethod \<lparr>httpMethod = ''POST'', body = Some (JObject [(''jsonData'', JNumber 0)])\<rparr> = ''POST'' \<and>
   property (JObject [(''jsonData'', JNumber 0)]) ''jsonData'' = Some (JNumber 0) \<and>
   falsy (JNumber 0) \<and>
   handler exampleRuntime ''TypeError''
     \<lparr>httpMethod = ''POST'', body = Some (JObject [(''jsonData'', JNumber 0)])\<rparr>
     = JsonResponse 400 (JObject [(''error'', JString ''JSON data is required'')]) \<and>
   (\<exists>fileName files.
      handler exampleRuntime ''TypeError''
        \<lparr>httpMethod = ''POST'', body = Some (JObject [(''jsonData'', JBool True)])\<rparr>
        = ZipResponse 200 fileName files) \<and>
   (\<exists>b v. body \<lparr>httpMethod = ''POST'', body = Some (JObject [(''jsonData'', JBool True)])\<rparr> = Some b
      \<and> property b ''jsonData'' = Some v \<and> \<not> falsy v)"
proof -
  let ?ok = "\<lparr>httpMethod = ''POST'', body = Some (JObject [(''jsonData'', JBool True)])\<rparr>"
  have z: "handler exampleRuntime ''TypeError'' ?ok
      = ZipResponse 200 ''converted-json-structure.zip''
          (fileAdd ''_metadata.json''
             (stringify2 exampleRuntime
                (JObject [(''generatedAt'', JString (now exampleRuntime 0)),
                          (''originalStructure'', JBool True),
                          (''fileCount'', JNumber (real (length
                             (runCalls [] (processJsonStructure exampleRuntime (JBool True) []) []))))]))
             (runCalls [] (processJsonStructure exampleRuntime (JBool True) []) []))"
    by (simp add: handler_def Let_def)
  show ?thesis
    using falsy_jsonData_rejected
      [of "\<lparr>httpMethod = ''POST'', body = Some (JObject [(''jsonData'', JNumber 0)])\<rparr>"
          "JObject [(''jsonData'', JNumber 0)]" "JNumber 0" exampleRuntime "''TypeError''"]
      falsy_jsonData_rejected [of ?ok _ _ exampleRuntime "''TypeError''", THEN conjunct2, rule_format, OF z]
      z
    by simp
qed


end
